theory Spec2Isabelle
  imports Complex_Main
begin

section \<open>The RSI market-making scripts: data model\<close>

text \<open>
  Two Python scripts are embedded: \<^verbatim>\<open>rsi-amm-joi.py\<close> (class \<^verbatim>\<open>RSIAMM\<close>, the first
  variant) and \<^verbatim>\<open>rsi-amm-joi-v2.py\<close> (classes \<^verbatim>\<open>RsiAmmV2Config\<close> and \<^verbatim>\<open>RsiAmmV2\<close>,
  the second variant). Prices, amounts, indicator values and timestamps are Python
  \<^verbatim>\<open>Decimal\<close> and \<^verbatim>\<open>float\<close> values in the scripts; here they are exact reals, so the
  rounding of either representation is outside the model. A float that may be
  not-a-number (an indicator value before its window has filled) is a \<open>pyfloat\<close>.
  Exceptions are values of type \<open>error\<close>.
\<close>

datatype error = IndexError | KeyError | TypeError | AttributeError

datatype pyfloat = Num real | NaN

text \<open>Python's \<^verbatim>\<open>x < y\<close> and \<^verbatim>\<open>x > y\<close> on floats: false when \<^verbatim>\<open>x\<close> is not-a-number.\<close>

fun py_lt :: "pyfloat \<Rightarrow> real \<Rightarrow> bool" where
  "py_lt (Num x) y = (x < y)"
| "py_lt NaN y = False"

fun py_gt :: "pyfloat \<Rightarrow> real \<Rightarrow> bool" where
  "py_gt (Num x) y = (x > y)"
| "py_gt NaN y = False"

text \<open>
  A row of a candle frame: the open, high, low, close and volume of the candle, and the
  cell of the frame's last column, whichever column the host puts last. A candle frame
  is a list of rows, oldest first.
\<close>

record candle =
  candle_open :: real
  candle_high :: real
  candle_low :: real
  candle_close :: real
  candle_volume :: real
  candle_last_column :: pyfloat

datatype TradeType = BUY | SELL

datatype OrderType = MARKET | LIMIT | LIMIT_MAKER

record OrderCandidate =
  trading_pair :: string
  is_maker :: bool
  order_type :: OrderType
  order_side :: TradeType
  amount :: real
  price :: real

text \<open>
  The attributes of an \<^verbatim>\<open>RSIAMM\<close> object that the tick handler and the quote computation
  read or write. \<open>last_mid_price\<close> is \<open>None\<close> for Python's \<^verbatim>\<open>None\<close>.
\<close>

record RSIAMM =
  bid_spread :: real
  ask_spread :: real
  rsi_refresh_time :: real
  order_amount :: real
  create_timestamp :: real
  self_trading_pair :: string
  exchange :: string
  rsi_signal :: int
  buffer_size :: real
  rsi_spread_change_percentage :: real
  last_mid_price :: "real option"

text \<open>The class body of \<^verbatim>\<open>RSIAMM\<close>: a fresh object has these values.\<close>

definition RSIAMM_init :: RSIAMM where
  "RSIAMM_init =
     \<lparr>bid_spread = 1, ask_spread = 1, rsi_refresh_time = 15, order_amount = 5 / 10000,
      create_timestamp = 0, self_trading_pair = ''BTC-USDT'', exchange = ''binance'',
      rsi_signal = 0, buffer_size = 100, rsi_spread_change_percentage = 1 / 2,
      last_mid_price = None\<rparr>"

text \<open>The fields of \<^verbatim>\<open>RsiAmmV2Config\<close> that the second variant reads through \<^verbatim>\<open>self.config\<close>.\<close>

record RsiAmmV2Config =
  cfg_connector :: string
  cfg_trading_pair :: string
  cfg_rsi_period :: int
  cfg_rsi_low :: real
  cfg_rsi_high :: real
  cfg_order_amount_quote :: real
  cfg_bid_spread :: real
  cfg_ask_spread :: real
  cfg_exchange :: string
  cfg_buffer_size :: real
  cfg_rsi_spread_change_percentage :: real

definition RsiAmmV2Config_default :: RsiAmmV2Config where
  "RsiAmmV2Config_default =
     \<lparr>cfg_connector = ''binance'', cfg_trading_pair = ''BTC-USDT'', cfg_rsi_period = 14,
      cfg_rsi_low = 30, cfg_rsi_high = 70, cfg_order_amount_quote = 30,
      cfg_bid_spread = 1, cfg_ask_spread = 1, cfg_exchange = ''binance'',
      cfg_buffer_size = 100, cfg_rsi_spread_change_percentage = 1 / 2\<rparr>"

text \<open>
  The attributes of an \<^verbatim>\<open>RsiAmmV2\<close> object. The class body sets \<^verbatim>\<open>rsi_signal = 0\<close> and
  the constructor sets \<^verbatim>\<open>last_mid_price = None\<close>; \<^verbatim>\<open>get_signal\<close> returns an optional
  value, so the cached signal is optional too. The script never assigns
  \<^verbatim>\<open>create_timestamp\<close> or \<^verbatim>\<open>rsi_refresh_time\<close> on the strategy object (it declares them
  on the configuration class only) yet reads both from \<^verbatim>\<open>self\<close>: each is \<open>None\<close> when
  the object has no such attribute and \<open>Some v\<close> when the host's base class supplies it.
\<close>

record RsiAmmV2 =
  v2_rsi_signal :: "int option"
  v2_create_timestamp :: "real option"
  v2_rsi_refresh_time :: "real option"
  v2_last_mid_price :: "real option"


section \<open>The quote computation\<close>

text \<open>
  \<^verbatim>\<open>create_proposal(self, mid_price)\<close> of the first variant. Its first statement is
  \<^verbatim>\<open>natr = self.get_natr()\<close>; the outcome of that call is the argument \<open>natr_result\<close>
  of \<open>create_proposal\<close>. The local variables of the method are functions of the
  object, the volatility value and the mid price.
\<close>

definition adjusted_mid_price :: "RSIAMM \<Rightarrow> real \<Rightarrow> real \<Rightarrow> real" where
  "adjusted_mid_price self natr mid_price =
     (if rsi_signal self = 1
        then mid_price * (1 + (bid_spread self * natr * rsi_spread_change_percentage self))
      else if rsi_signal self = - 1
        then mid_price * (1 - (bid_spread self * natr * rsi_spread_change_percentage self))
      else mid_price)"

definition buy_price :: "RSIAMM \<Rightarrow> real \<Rightarrow> real \<Rightarrow> real" where
  "buy_price self natr mid_price =
     adjusted_mid_price self natr mid_price * (1 - bid_spread self * natr)"

definition sell_price :: "RSIAMM \<Rightarrow> real \<Rightarrow> real \<Rightarrow> real" where
  "sell_price self natr mid_price =
     adjusted_mid_price self natr mid_price * (1 + ask_spread self * natr)"

definition create_proposal :: "RSIAMM \<Rightarrow> error + real \<Rightarrow> real \<Rightarrow> error + OrderCandidate list" where
  "create_proposal self natr_result mid_price =
     (case natr_result of
        Inl e \<Rightarrow> Inl e
      | Inr natr \<Rightarrow>
          (let buy_order =
                 \<lparr>trading_pair = self_trading_pair self, is_maker = True, order_type = LIMIT,
                  order_side = BUY, amount = order_amount self,
                  price = buy_price self natr mid_price\<rparr>;
               sell_order =
                 \<lparr>trading_pair = self_trading_pair self, is_maker = True, order_type = LIMIT,
                  order_side = SELL, amount = order_amount self,
                  price = sell_price self natr mid_price\<rparr>
           in Inr [buy_order, sell_order]))"

text \<open>
  \<^verbatim>\<open>create_proposal\<close> of the second variant: the same statements, reading the spreads,
  the skew percentage, the pair and the amount from \<^verbatim>\<open>self.config\<close> and the cached
  signal from \<^verbatim>\<open>self.rsi_signal\<close>.
\<close>

definition adjusted_mid_price_v2 :: "RsiAmmV2Config \<Rightarrow> int option \<Rightarrow> real \<Rightarrow> real \<Rightarrow> real" where
  "adjusted_mid_price_v2 config signal natr mid_price =
     (if signal = Some 1
        then mid_price * (1 + (cfg_bid_spread config * natr * cfg_rsi_spread_change_percentage config))
      else if signal = Some (- 1)
        then mid_price * (1 - (cfg_bid_spread config * natr * cfg_rsi_spread_change_percentage config))
      else mid_price)"

definition buy_price_v2 :: "RsiAmmV2Config \<Rightarrow> int option \<Rightarrow> real \<Rightarrow> real \<Rightarrow> real" where
  "buy_price_v2 config signal natr mid_price =
     adjusted_mid_price_v2 config signal natr mid_price * (1 - cfg_bid_spread config * natr)"

definition sell_price_v2 :: "RsiAmmV2Config \<Rightarrow> int option \<Rightarrow> real \<Rightarrow> real \<Rightarrow> real" where
  "sell_price_v2 config signal natr mid_price =
     adjusted_mid_price_v2 config signal natr mid_price * (1 + cfg_ask_spread config * natr)"

definition create_proposal_v2 ::
  "RsiAmmV2Config \<Rightarrow> int option \<Rightarrow> error + real \<Rightarrow> real \<Rightarrow> error + OrderCandidate list" where
  "create_proposal_v2 config signal natr_result mid_price =
     (case natr_result of
        Inl e \<Rightarrow> Inl e
      | Inr natr \<Rightarrow>
          (let buy_order =
                 \<lparr>trading_pair = cfg_trading_pair config, is_maker = True, order_type = LIMIT,
                  order_side = BUY, amount = cfg_order_amount_quote config,
                  price = buy_price_v2 config signal natr mid_price\<rparr>;
               sell_order =
                 \<lparr>trading_pair = cfg_trading_pair config, is_maker = True, order_type = LIMIT,
                  order_side = SELL, amount = cfg_order_amount_quote config,
                  price = sell_price_v2 config signal natr mid_price\<rparr>
           in Inr [buy_order, sell_order]))"

text \<open>
  The specification's \<^verbatim>\<open>propose_quotes\<close>, written from its words: the signal is one of
  BUY, SELL and NEUTRAL; the reference price is the mid price shifted up by
  \<^verbatim>\<open>mid_price * bid_spread * volatility * skew_pct\<close> on BUY, down by the same amount on
  SELL, and the mid price otherwise.
\<close>

datatype Signal = Signal_BUY | Signal_SELL | Signal_NEUTRAL

definition signal_of :: "int \<Rightarrow> Signal" where
  "signal_of s = (if s = 1 then Signal_BUY else if s = - 1 then Signal_SELL else Signal_NEUTRAL)"

definition spec_reference_price :: "real \<Rightarrow> Signal \<Rightarrow> real \<Rightarrow> real \<Rightarrow> real \<Rightarrow> real" where
  "spec_reference_price mid_price signal volatility bid_spread_p skew_pct =
     (case signal of
        Signal_BUY \<Rightarrow> mid_price + mid_price * bid_spread_p * volatility * skew_pct
      | Signal_SELL \<Rightarrow> mid_price - mid_price * bid_spread_p * volatility * skew_pct
      | Signal_NEUTRAL \<Rightarrow> mid_price)"

definition spec_buy_price :: "real \<Rightarrow> Signal \<Rightarrow> real \<Rightarrow> real \<Rightarrow> real \<Rightarrow> real" where
  "spec_buy_price mid_price signal volatility bid_spread_p skew_pct =
     spec_reference_price mid_price signal volatility bid_spread_p skew_pct
       * (1 - bid_spread_p * volatility)"

definition spec_sell_price :: "real \<Rightarrow> Signal \<Rightarrow> real \<Rightarrow> real \<Rightarrow> real \<Rightarrow> real \<Rightarrow> real" where
  "spec_sell_price mid_price signal volatility bid_spread_p ask_spread_p skew_pct =
     spec_reference_price mid_price signal volatility bid_spread_p skew_pct
       * (1 + ask_spread_p * volatility)"


section \<open>The signal computation\<close>

text \<open>
  Both variants ask the indicator library for the oscillator with \<^verbatim>\<open>append=True\<close>. The
  library is not part of the scripts; it is the parameter \<open>rsi_indicator\<close>, which for a
  window length and a candle frame gives the column the library appends to the frame,
  or \<open>None\<close> when it appends nothing (as it does on a frame with fewer rows than the
  length). An appended column is aligned with the rows of the frame by position: a row
  the column has no entry for holds not-a-number.
\<close>

definition cell :: "pyfloat list \<Rightarrow> nat \<Rightarrow> pyfloat" where
  "cell column i = (if i < length column then column ! i else NaN)"

text \<open>
  \<^verbatim>\<open>get_processed_df\<close> of the first variant appends the oscillator of length 7 to the
  candle frame and returns the frame. The result here is the last column of the returned
  frame, one entry per candle: the oscillator when the library appended it, the frame's
  own last column when it did not.
\<close>

definition get_processed_df ::
  "(int \<Rightarrow> candle list \<Rightarrow> pyfloat list option) \<Rightarrow> candle list \<Rightarrow> pyfloat list" where
  "get_processed_df rsi_indicator candles =
     (case rsi_indicator 7 candles of
        None \<Rightarrow> map candle_last_column candles
      | Some rsi \<Rightarrow> map (cell rsi) [0..<length candles])"

text \<open>
  \<^verbatim>\<open>get_rsi_signal\<close> of the first variant reads \<^verbatim>\<open>candles_df.iat[-1, -1]\<close>, the last
  column of the last row of the processed candle frame. The argument is that last
  column; position \<^verbatim>\<open>-1\<close> of an empty frame is out of bounds and raises. The
  thresholds 70 and 30 are literals of the method.
\<close>

definition get_rsi_signal :: "pyfloat list \<Rightarrow> error + int" where
  "get_rsi_signal candles_df =
     (if candles_df = [] then Inl IndexError
      else (let rsi_value = last candles_df in
              if py_gt rsi_value 70 then Inr (- 1)
              else if py_lt rsi_value 30 then Inr 1
              else Inr 0))"

text \<open>
  \<^verbatim>\<open>get_signal(self, connector_name, trading_pair)\<close> of the second variant. It fetches
  the candle frame of the connector and pair from the host (\<open>candles_feed\<close>), asks the
  library to append the oscillator of length \<^verbatim>\<open>rsi_period\<close>, fills a \<^verbatim>\<open>signal\<close> column
  with 0, writes 1 into the rows whose oscillator is below \<^verbatim>\<open>rsi_low\<close>, then -1 into
  the rows whose oscillator is above \<^verbatim>\<open>rsi_high\<close>, and returns the last row's entry, or
  \<^verbatim>\<open>None\<close> for an empty frame. The two masks read the oscillator column by name before
  the frame is tested for emptiness: when the library appended no column the lookup
  raises \<^verbatim>\<open>KeyError\<close>.
\<close>

definition signal_column :: "RsiAmmV2Config \<Rightarrow> pyfloat list \<Rightarrow> int list" where
  "signal_column config rsi =
     map (\<lambda>r. let s0 = 0;
                   s1 = (if py_lt r (cfg_rsi_low config) then 1 else s0);
                   s2 = (if py_gt r (cfg_rsi_high config) then - 1 else s1)
               in s2) rsi"

definition get_signal ::
  "RsiAmmV2Config \<Rightarrow> (int \<Rightarrow> candle list \<Rightarrow> pyfloat list option) \<Rightarrow>
   (string \<Rightarrow> string \<Rightarrow> candle list) \<Rightarrow> string \<Rightarrow> string \<Rightarrow> error + int option" where
  "get_signal config rsi_indicator candles_feed connector_name trading_pair_arg =
     (let candles = candles_feed connector_name trading_pair_arg in
        case rsi_indicator (cfg_rsi_period config) candles of
          None \<Rightarrow> Inl KeyError
        | Some rsi \<Rightarrow>
            (let signal = signal_column config (map (cell rsi) [0..<length candles]) in
               Inr (if candles \<noteq> [] then Some (last signal) else None)))"

text \<open>
  Calling a Python function of two required positional parameters with a list of
  positional arguments: any other number of arguments raises \<^verbatim>\<open>TypeError\<close>.
\<close>

definition py_call2 :: "(string \<Rightarrow> string \<Rightarrow> 'a) \<Rightarrow> string list \<Rightarrow> error + 'a" where
  "py_call2 f args = (case args of [a, b] \<Rightarrow> Inr (f a b) | _ \<Rightarrow> Inl TypeError)"


section \<open>Attribute lookup and the volatility computation\<close>

text \<open>
  Which names an object defines matters for \<^verbatim>\<open>get_natr\<close>, so the two class bodies are
  also given as tables of attribute names and values, in the order of the source.
  \<open>PObject\<close> stands for a value built by the host framework. \<open>getattr\<close> is Python's
  \<^verbatim>\<open>obj.name\<close>: the first entry for the name, \<^verbatim>\<open>AttributeError\<close> when there is none.
  An object's table is its class body followed by what its base class defines.
\<close>

datatype pyval = PInt int | PFloat real | PStr string | PNone | PObject

definition getattr :: "(string \<times> pyval) list \<Rightarrow> string \<Rightarrow> error + pyval" where
  "getattr obj name = (case map_of obj name of None \<Rightarrow> Inl AttributeError | Some v \<Rightarrow> Inr v)"

definition RSIAMM_class :: "(string \<times> pyval) list" where
  "RSIAMM_class =
     [(''bid_spread'', PInt 1), (''ask_spread'', PInt 1), (''rsi_refresh_time'', PInt 15),
      (''order_amount'', PFloat (5 / 10000)), (''create_timestamp'', PInt 0),
      (''trading_pair'', PStr ''BTC-USDT''), (''exchange'', PStr ''binance''),
      (''interval'', PStr ''3m''), (''natr_period'', PInt 100), (''TICK'', PInt 1),
      (''rsi_signal'', PInt 0), (''buffer_size'', PInt 100),
      (''rsi_spread_change_percentage'', PFloat (1 / 2)), (''price_source'', PObject),
      (''candles'', PObject), (''markets'', PObject), (''last_mid_price'', PNone)]"

definition RsiAmmV2Config_class :: "(string \<times> pyval) list" where
  "RsiAmmV2Config_class =
     [(''script_file_name'', PObject), (''candles_config'', PObject), (''markets'', PObject),
      (''connector'', PStr ''binance''), (''trading_pair'', PStr ''BTC-USDT''),
      (''rsi_period'', PInt 14), (''rsi_low'', PFloat 30), (''rsi_high'', PFloat 70),
      (''interval'', PStr ''3m''), (''order_amount_quote'', PInt 30),
      (''max_records'', PInt 1000), (''bid_spread'', PInt 1), (''ask_spread'', PInt 1),
      (''rsi_refresh_time'', PInt 15), (''create_timestamp'', PInt 0),
      (''exchange'', PStr ''binance''), (''TICK'', PInt 1), (''buffer_size'', PInt 100),
      (''rsi_spread_change_percentage'', PFloat (1 / 2))]"

text \<open>
  \<^verbatim>\<open>get_natr\<close> fetches the candle frame, calls the indicator library with
  \<^verbatim>\<open>length=self.natr_period\<close> (first variant) or \<^verbatim>\<open>length=self.config.natr_period\<close>
  (second variant) and returns the last value of the series divided by 100.
  \<open>ta_natr_last\<close> is the library's part: the last value of the series for a length.
\<close>

definition get_natr :: "(string \<times> pyval) list \<Rightarrow> (pyval \<Rightarrow> error + real) \<Rightarrow> error + real" where
  "get_natr self_attrs ta_natr_last =
     (case getattr self_attrs ''natr_period'' of
        Inl e \<Rightarrow> Inl e
      | Inr len \<Rightarrow> (case ta_natr_last len of Inl e \<Rightarrow> Inl e | Inr natr \<Rightarrow> Inr (natr / 100)))"

definition get_natr_v2 :: "(string \<times> pyval) list \<Rightarrow> (pyval \<Rightarrow> error + real) \<Rightarrow> error + real" where
  "get_natr_v2 config_attrs ta_natr_last =
     (case getattr config_attrs ''natr_period'' of
        Inl e \<Rightarrow> Inl e
      | Inr len \<Rightarrow> (case ta_natr_last len of Inl e \<Rightarrow> Inl e | Inr natr \<Rightarrow> Inr (natr / 100)))"


section \<open>The tick handlers\<close>

text \<open>
  What the host framework supplies during one tick: whether the market data provider
  is ready, the clock, the price lookup by connector and pair, the candle frame of the
  first variant's own feed (\<^verbatim>\<open>self.candles[0].candles_df\<close>), the candle frames by
  connector and pair that the second variant fetches, the indicator library's oscillator,
  the outcome of \<^verbatim>\<open>self.get_natr()\<close>, and the budget checker's \<^verbatim>\<open>adjust_candidates\<close>.
\<close>

record host =
  ready :: bool
  current_timestamp :: real
  get_price_by_type :: "string \<Rightarrow> string \<Rightarrow> real"
  candles_df :: "candle list"
  get_candles_df :: "string \<Rightarrow> string \<Rightarrow> candle list"
  ta_rsi :: "int \<Rightarrow> candle list \<Rightarrow> pyfloat list option"
  get_natr_outcome :: "error + real"
  adjust_candidates :: "OrderCandidate list \<Rightarrow> OrderCandidate list"

text \<open>The last column of the frame \<^verbatim>\<open>get_processed_df\<close> returns during a tick.\<close>

definition processed_df :: "host \<Rightarrow> pyfloat list" where
  "processed_df h = get_processed_df (ta_rsi h) (candles_df h)"

text \<open>
  The calls the first variant makes on the host: \<^verbatim>\<open>cancel_all_orders\<close>, and
  \<^verbatim>\<open>self.buy\<close> / \<^verbatim>\<open>self.sell\<close> with connector name, trading pair, amount, order type and
  price.
\<close>

datatype host_call =
    Cancel_all_orders
  | Buy_call string string real OrderType real
  | Sell_call string string real OrderType real

definition place_order :: "string \<Rightarrow> OrderCandidate \<Rightarrow> host_call list" where
  "place_order connector_name order =
     (if order_side order = SELL
        then [Sell_call connector_name (trading_pair order) (amount order) (order_type order) (price order)]
      else if order_side order = BUY
        then [Buy_call connector_name (trading_pair order) (amount order) (order_type order) (price order)]
      else [])"

definition place_orders :: "RSIAMM \<Rightarrow> OrderCandidate list \<Rightarrow> host_call list" where
  "place_orders self proposal = concat (map (place_order (exchange self)) proposal)"

text \<open>
  \<^verbatim>\<open>on_tick\<close> of the first variant in two blocks. The first is the refresh of the cached
  signal (the \<^verbatim>\<open>if self.create_timestamp <= self.current_timestamp\<close> statement), the
  second the re-quote (the \<^verbatim>\<open>if self.last_mid_price is None or ...\<close> statement). Each
  returns the object as the statement leaves it, and the exception if one was raised;
  the second also returns the host calls made.
\<close>

definition on_tick_refresh :: "host \<Rightarrow> RSIAMM \<Rightarrow> RSIAMM \<times> error option" where
  "on_tick_refresh h self =
     (if create_timestamp self \<le> current_timestamp h then
        (case get_rsi_signal (processed_df h) of
           Inl e \<Rightarrow> (self, Some e)
         | Inr s \<Rightarrow>
             (self\<lparr>rsi_signal := s,
                   create_timestamp := rsi_refresh_time self + current_timestamp h\<rparr>, None))
      else (self, None))"

definition on_tick_quote :: "host \<Rightarrow> RSIAMM \<Rightarrow> real \<Rightarrow> RSIAMM \<times> host_call list \<times> error option" where
  "on_tick_quote h self new_mid_price =
     (if (case last_mid_price self of
            None \<Rightarrow> True
          | Some l \<Rightarrow> \<bar>new_mid_price - l\<bar> > buffer_size self) then
        (case create_proposal self (get_natr_outcome h) new_mid_price of
           Inl e \<Rightarrow> (self, [Cancel_all_orders], Some e)
         | Inr proposal \<Rightarrow>
             (let proposal_adjusted = adjust_candidates h proposal in
                (self\<lparr>last_mid_price := Some new_mid_price\<rparr>,
                 Cancel_all_orders # place_orders self proposal_adjusted, None)))
      else (self, [], None))"

definition on_tick :: "host \<Rightarrow> RSIAMM \<Rightarrow> RSIAMM \<times> host_call list \<times> error option" where
  "on_tick h self =
     (if \<not> ready h then (self, [], None)
      else (let new_mid_price = get_price_by_type h (exchange self) (self_trading_pair self) in
              case on_tick_refresh h self of
                (self1, Some e) \<Rightarrow> (self1, [], Some e)
              | (self1, None) \<Rightarrow> on_tick_quote h self1 new_mid_price))"

text \<open>
  \<^verbatim>\<open>create_actions_proposal\<close> of the second variant, in the same two blocks. It returns
  a list of executor actions, each holding a \<^verbatim>\<open>PositionExecutorConfig\<close> built from the
  clock, the configured pair and connector, and the side and amount of an adjusted order.
  The refresh block calls \<^verbatim>\<open>self.get_signal()\<close> with no positional argument.
\<close>

record PositionExecutorConfig =
  pe_timestamp :: real
  pe_trading_pair :: string
  pe_connector_name :: string
  pe_side :: TradeType
  pe_amount :: real

datatype CreateExecutorAction = CreateExecutorAction PositionExecutorConfig

definition create_actions_refresh :: "host \<Rightarrow> RsiAmmV2Config \<Rightarrow> RsiAmmV2 \<Rightarrow> RsiAmmV2 \<times> error option" where
  "create_actions_refresh h config self =
     (case v2_create_timestamp self of
        None \<Rightarrow> (self, Some AttributeError)
      | Some ct \<Rightarrow>
          if ct \<le> current_timestamp h then
            (case py_call2 (get_signal config (ta_rsi h) (get_candles_df h)) [] of
               Inl e \<Rightarrow> (self, Some e)
             | Inr (Inl e) \<Rightarrow> (self, Some e)
             | Inr (Inr s) \<Rightarrow>
                 (let self1 = self\<lparr>v2_rsi_signal := s\<rparr> in
                    case v2_rsi_refresh_time self1 of
                      None \<Rightarrow> (self1, Some AttributeError)
                    | Some rt \<Rightarrow>
                        (self1\<lparr>v2_create_timestamp := Some (rt + current_timestamp h)\<rparr>, None)))
          else (self, None))"

definition create_actions_quote ::
  "host \<Rightarrow> RsiAmmV2Config \<Rightarrow> RsiAmmV2 \<Rightarrow> real \<Rightarrow> RsiAmmV2 \<times> (error + CreateExecutorAction list)" where
  "create_actions_quote h config self new_mid_price =
     (if (case v2_last_mid_price self of
            None \<Rightarrow> True
          | Some l \<Rightarrow> \<bar>new_mid_price - l\<bar> > cfg_buffer_size config) then
        (case create_proposal_v2 config (v2_rsi_signal self) (get_natr_outcome h) new_mid_price of
           Inl e \<Rightarrow> (self, Inl e)
         | Inr proposal \<Rightarrow>
             (let proposal_adjusted = adjust_candidates h proposal;
                  self1 = self\<lparr>v2_last_mid_price := Some new_mid_price\<rparr>
              in case proposal_adjusted of
                   [] \<Rightarrow> (self1, Inl IndexError)
                 | order1 # rest \<Rightarrow>
                     (case rest of
                        [] \<Rightarrow> (self1, Inl IndexError)
                      | order2 # _ \<Rightarrow>
                          (let executor_config_buy =
                                 \<lparr>pe_timestamp = current_timestamp h,
                                  pe_trading_pair = cfg_trading_pair config,
                                  pe_connector_name = cfg_connector config,
                                  pe_side = order_side order1, pe_amount = amount order1\<rparr>;
                               executor_config_sell =
                                 \<lparr>pe_timestamp = current_timestamp h,
                                  pe_trading_pair = cfg_trading_pair config,
                                  pe_connector_name = cfg_connector config,
                                  pe_side = order_side order2, pe_amount = amount order2\<rparr>
                           in (self1, Inr [CreateExecutorAction executor_config_buy,
                                           CreateExecutorAction executor_config_sell])))))
      else (self, Inr []))"

definition create_actions_proposal ::
  "host \<Rightarrow> RsiAmmV2Config \<Rightarrow> RsiAmmV2 \<Rightarrow> RsiAmmV2 \<times> (error + CreateExecutorAction list)" where
  "create_actions_proposal h config self =
     (if \<not> ready h then (self, Inr [])
      else (let new_mid_price = get_price_by_type h (cfg_exchange config) (cfg_exchange config) in
              case create_actions_refresh h config self of
                (self1, Some e) \<Rightarrow> (self1, Inl e)
              | (self1, None) \<Rightarrow> create_actions_quote h config self1 new_mid_price))"


section \<open>Concrete inputs\<close>

text \<open>
  A candle window whose closes fall from one candle to the next, and one whose closes
  rise. On such windows the oscillator is 0 (falling) or 100 (rising) in every row after
  the first \<open>length\<close> rows, which hold not-a-number; \<open>monotone_rsi v\<close> is the library's
  output on them, with \<open>v\<close> the value after the warm-up rows, and no column at all on a
  window of fewer rows than the length.
\<close>

primrec falling_window :: "nat \<Rightarrow> candle list" where
  "falling_window 0 = []"
| "falling_window (Suc n) =
     \<lparr>candle_open = real (Suc n), candle_high = real (Suc n), candle_low = real n,
      candle_close = real n, candle_volume = 1, candle_last_column = Num 1\<rparr>
     # falling_window n"

definition rising_window :: "nat \<Rightarrow> candle list" where
  "rising_window n = rev (falling_window n)"

definition monotone_rsi :: "real \<Rightarrow> int \<Rightarrow> candle list \<Rightarrow> pyfloat list option" where
  "monotone_rsi v len candles =
     (if int (length candles) < len then None
      else Some (replicate (nat len) NaN @ replicate (length candles - nat len) (Num v)))"

text \<open>
  A candle feed that gives the same frame for every connector and pair, a price lookup
  that gives the same price for every connector and pair, an indicator whose last value
  is the same for every length, and a budget checker that finds no balance and sets the
  amount of every candidate to zero. The example host has falling windows of 8 and 15
  candles, volatility 0.01, mid price 100, clock 1000 and a budget checker that leaves
  the proposal as it is. The \<^verbatim>\<open>RsiAmmV2\<close> object is one whose base class supplies the two
  timer attributes with the values of the configuration class.
\<close>

definition constant_feed :: "'a \<Rightarrow> string \<Rightarrow> string \<Rightarrow> 'a" where
  "constant_feed candles connector_name trading_pair_arg = candles"

definition constant_price :: "real \<Rightarrow> string \<Rightarrow> string \<Rightarrow> real" where
  "constant_price p connector_name trading_pair_arg = p"

definition constant_natr :: "real \<Rightarrow> pyval \<Rightarrow> error + real" where
  "constant_natr v len = Inr v"

definition zero_amounts :: "OrderCandidate list \<Rightarrow> OrderCandidate list" where
  "zero_amounts proposal = map (\<lambda>order. order\<lparr>amount := 0\<rparr>) proposal"

definition host_example :: host where
  "host_example =
     \<lparr>ready = True, current_timestamp = 1000, get_price_by_type = constant_price 100,
      candles_df = falling_window 8, get_candles_df = constant_feed (falling_window 15),
      ta_rsi = monotone_rsi 0, get_natr_outcome = Inr (1 / 100), adjust_candidates = id\<rparr>"

definition RsiAmmV2_init :: RsiAmmV2 where
  "RsiAmmV2_init =
     \<lparr>v2_rsi_signal = Some 0, v2_create_timestamp = Some 0, v2_rsi_refresh_time = Some 15,
      v2_last_mid_price = None\<rparr>"


section \<open>Quote prices\<close>

lemma adjusted_mid_price_spec:
  "adjusted_mid_price self natr mid_price =
     spec_reference_price mid_price (signal_of (rsi_signal self)) natr (bid_spread self)
       (rsi_spread_change_percentage self)"
  by (simp add: adjusted_mid_price_def spec_reference_price_def signal_of_def algebra_simps)

lemma adjusted_mid_price_v2_spec:
  "adjusted_mid_price_v2 config (Some s) natr mid_price =
     spec_reference_price mid_price (signal_of s) natr (cfg_bid_spread config)
       (cfg_rsi_spread_change_percentage config)"
  by (simp add: adjusted_mid_price_v2_def spec_reference_price_def signal_of_def algebra_simps)

lemma adjusted_mid_price_v2_None:
  "adjusted_mid_price_v2 config None natr mid_price = mid_price"
  by (simp add: adjusted_mid_price_v2_def)

lemma buy_price_spec:
  "buy_price self natr mid_price =
     spec_buy_price mid_price (signal_of (rsi_signal self)) natr (bid_spread self)
       (rsi_spread_change_percentage self)"
  by (simp add: buy_price_def spec_buy_price_def adjusted_mid_price_spec)

lemma sell_price_spec:
  "sell_price self natr mid_price =
     spec_sell_price mid_price (signal_of (rsi_signal self)) natr (bid_spread self)
       (ask_spread self) (rsi_spread_change_percentage self)"
  by (simp add: sell_price_def spec_sell_price_def adjusted_mid_price_spec)

lemma buy_price_v2_spec:
  "buy_price_v2 config (Some s) natr mid_price =
     spec_buy_price mid_price (signal_of s) natr (cfg_bid_spread config)
       (cfg_rsi_spread_change_percentage config)"
  by (simp add: buy_price_v2_def spec_buy_price_def adjusted_mid_price_v2_spec)

lemma sell_price_v2_spec:
  "sell_price_v2 config (Some s) natr mid_price =
     spec_sell_price mid_price (signal_of s) natr (cfg_bid_spread config)
       (cfg_ask_spread config) (cfg_rsi_spread_change_percentage config)"
  by (simp add: sell_price_v2_def spec_sell_price_def adjusted_mid_price_v2_spec)

lemma neutral_example:
  "spec_buy_price 100 Signal_NEUTRAL (1 / 100) 1 skew_pct = 99"
  "spec_sell_price 100 Signal_NEUTRAL (1 / 100) 1 1 skew_pct = 101"
  by (simp_all add: spec_buy_price_def spec_sell_price_def spec_reference_price_def)

text \<open>
  C1. In both variants the quote computation follows the specification's formula: the
  reference price is the mid price shifted up by
  \<^verbatim>\<open>mid_price * bid_spread * volatility * skew_pct\<close> when the cached signal is 1 (BUY),
  down by the same amount when it is -1 (SELL), and the mid price for every other
  signal value; the buy order's price is the reference price times
  \<^verbatim>\<open>1 - bid_spread * volatility\<close> and the sell order's price is the reference price times
  \<^verbatim>\<open>1 + ask_spread * volatility\<close>. For mid price 100, a neutral signal, both spreads 1
  and volatility 0.01 the prices are 99 and 101.
\<close>

theorem quote_prices_follow_spec:
  "adjusted_mid_price self natr mid_price =
     spec_reference_price mid_price (signal_of (rsi_signal self)) natr (bid_spread self)
       (rsi_spread_change_percentage self)
   \<and> adjusted_mid_price_v2 config (Some s) natr mid_price =
     spec_reference_price mid_price (signal_of s) natr (cfg_bid_spread config)
       (cfg_rsi_spread_change_percentage config)
   \<and> (\<exists>buy_order sell_order.
         create_proposal self (Inr natr) mid_price = Inr [buy_order, sell_order]
         \<and> price buy_order =
             spec_buy_price mid_price (signal_of (rsi_signal self)) natr (bid_spread self)
               (rsi_spread_change_percentage self)
         \<and> price sell_order =
             spec_sell_price mid_price (signal_of (rsi_signal self)) natr (bid_spread self)
               (ask_spread self) (rsi_spread_change_percentage self))
   \<and> (\<exists>buy_order sell_order.
         create_proposal_v2 config (Some s) (Inr natr) mid_price = Inr [buy_order, sell_order]
         \<and> price buy_order =
             spec_buy_price mid_price (signal_of s) natr (cfg_bid_spread config)
               (cfg_rsi_spread_change_percentage config)
         \<and> price sell_order =
             spec_sell_price mid_price (signal_of s) natr (cfg_bid_spread config)
               (cfg_ask_spread config) (cfg_rsi_spread_change_percentage config))
   \<and> buy_price (self\<lparr>bid_spread := 1, ask_spread := 1, rsi_signal := 0\<rparr>) (1 / 100) 100 = 99
   \<and> sell_price (self\<lparr>bid_spread := 1, ask_spread := 1, rsi_signal := 0\<rparr>) (1 / 100) 100 = 101
   \<and> buy_price_v2 (config\<lparr>cfg_bid_spread := 1, cfg_ask_spread := 1\<rparr>) (Some 0) (1 / 100) 100 = 99
   \<and> sell_price_v2 (config\<lparr>cfg_bid_spread := 1, cfg_ask_spread := 1\<rparr>) (Some 0) (1 / 100) 100 = 101"
proof (intro conjI)
  show "\<exists>buy_order sell_order.
         create_proposal self (Inr natr) mid_price = Inr [buy_order, sell_order]
         \<and> price buy_order =
             spec_buy_price mid_price (signal_of (rsi_signal self)) natr (bid_spread self)
               (rsi_spread_change_percentage self)
         \<and> price sell_order =
             spec_sell_price mid_price (signal_of (rsi_signal self)) natr (bid_spread self)
               (ask_spread self) (rsi_spread_change_percentage self)"
    by (simp add: create_proposal_def buy_price_spec sell_price_spec)
  show "\<exists>buy_order sell_order.
         create_proposal_v2 config (Some s) (Inr natr) mid_price = Inr [buy_order, sell_order]
         \<and> price buy_order =
             spec_buy_price mid_price (signal_of s) natr (cfg_bid_spread config)
               (cfg_rsi_spread_change_percentage config)
         \<and> price sell_order =
             spec_sell_price mid_price (signal_of s) natr (cfg_bid_spread config)
               (cfg_ask_spread config) (cfg_rsi_spread_change_percentage config)"
    by (simp add: create_proposal_v2_def buy_price_v2_spec sell_price_v2_spec)
qed (simp_all add: adjusted_mid_price_spec adjusted_mid_price_v2_spec buy_price_spec
       sell_price_spec buy_price_v2_spec sell_price_v2_spec signal_of_def neutral_example)


lemma price_gap:
  fixes r b a v :: real
  assumes "0 < b" "0 < a" "0 < v"
  shows "(r * (1 - b * v) < r * (1 + a * v)) = (0 < r)"
proof -
  have pos: "0 < (a + b) * v" using assms by simp
  have "r * (1 + a * v) - r * (1 - b * v) = r * ((a + b) * v)"
    by (simp add: algebra_simps)
  then have "(r * (1 - b * v) < r * (1 + a * v)) = (0 < r * ((a + b) * v))"
    by linarith
  also have "\<dots> = (0 < r)" using pos by (metis mult_pos_pos zero_less_mult_pos2)
  finally show ?thesis .
qed

lemma shifted_mid_positive:
  fixes m x :: real
  assumes "0 < m" "\<bar>x\<bar> < 1"
  shows "0 < m * (1 + x)" "0 < m * (1 - x)"
  using assms by (simp_all add: abs_less_iff)

text \<open>
  C2, as amended. With \<^verbatim>\<open>bid_spread\<close>, \<^verbatim>\<open>ask_spread\<close> and the volatility all positive, in
  both variants and for every signal value, the buy price is strictly below the sell
  price exactly when the reference price is positive. This is the case whenever the mid
  price is positive and \<^verbatim>\<open>bid_spread * volatility * skew_pct\<close> lies strictly between -1
  and 1.
\<close>

theorem buy_below_sell_iff:
  assumes "0 < b" and "0 < a" and "0 < natr"
  shows
   "(buy_price (self\<lparr>bid_spread := b, ask_spread := a\<rparr>) natr mid_price
       < sell_price (self\<lparr>bid_spread := b, ask_spread := a\<rparr>) natr mid_price
     \<longleftrightarrow> 0 < adjusted_mid_price (self\<lparr>bid_spread := b, ask_spread := a\<rparr>) natr mid_price)
    \<and> (buy_price_v2 (config\<lparr>cfg_bid_spread := b, cfg_ask_spread := a\<rparr>) signal natr mid_price
       < sell_price_v2 (config\<lparr>cfg_bid_spread := b, cfg_ask_spread := a\<rparr>) signal natr mid_price
     \<longleftrightarrow> 0 < adjusted_mid_price_v2 (config\<lparr>cfg_bid_spread := b, cfg_ask_spread := a\<rparr>) signal natr mid_price)
    \<and> (0 < mid_price \<and> \<bar>b * natr * rsi_spread_change_percentage self\<bar> < 1
        \<longrightarrow> buy_price (self\<lparr>bid_spread := b, ask_spread := a\<rparr>) natr mid_price
           < sell_price (self\<lparr>bid_spread := b, ask_spread := a\<rparr>) natr mid_price)
    \<and> (0 < mid_price \<and> \<bar>b * natr * cfg_rsi_spread_change_percentage config\<bar> < 1
        \<longrightarrow> buy_price_v2 (config\<lparr>cfg_bid_spread := b, cfg_ask_spread := a\<rparr>) signal natr mid_price
           < sell_price_v2 (config\<lparr>cfg_bid_spread := b, cfg_ask_spread := a\<rparr>) signal natr mid_price)"
proof -
  let ?s = "self\<lparr>bid_spread := b, ask_spread := a\<rparr>"
  let ?c = "config\<lparr>cfg_bid_spread := b, cfg_ask_spread := a\<rparr>"
  have v1: "buy_price ?s natr mid_price < sell_price ?s natr mid_price
              \<longleftrightarrow> 0 < adjusted_mid_price ?s natr mid_price"
    using price_gap [OF assms, of "adjusted_mid_price ?s natr mid_price"]
    by (simp add: buy_price_def sell_price_def)
  have v2: "buy_price_v2 ?c signal natr mid_price < sell_price_v2 ?c signal natr mid_price
              \<longleftrightarrow> 0 < adjusted_mid_price_v2 ?c signal natr mid_price"
    using price_gap [OF assms, of "adjusted_mid_price_v2 ?c signal natr mid_price"]
    by (simp add: buy_price_v2_def sell_price_v2_def)
  have p1: "0 < adjusted_mid_price ?s natr mid_price"
    if "0 < mid_price" "\<bar>b * natr * rsi_spread_change_percentage self\<bar> < 1"
    using that shifted_mid_positive [OF that]
    by (simp add: adjusted_mid_price_def)
  have p2: "0 < adjusted_mid_price_v2 ?c signal natr mid_price"
    if "0 < mid_price" "\<bar>b * natr * cfg_rsi_spread_change_percentage config\<bar> < 1"
    using that shifted_mid_positive [OF that]
    by (simp add: adjusted_mid_price_v2_def)
  show ?thesis using v1 v2 p1 p2 by blast
qed

text \<open>
  The theorem at the class defaults with volatility 0.01 and mid price 100, SELL signal
  in the second variant: the hypotheses hold there and the buy price is below the sell
  price in both variants.
\<close>

theorem buy_below_sell_iff_witness:
  "(0::real) < 1 \<and> (0::real) < 1 / 100 \<and> (0::real) < 100
   \<and> \<bar>(1::real) * (1 / 100) * rsi_spread_change_percentage RSIAMM_init\<bar> < 1
   \<and> \<bar>(1::real) * (1 / 100) * cfg_rsi_spread_change_percentage RsiAmmV2Config_default\<bar> < 1
   \<and> buy_price (RSIAMM_init\<lparr>bid_spread := 1, ask_spread := 1\<rparr>) (1 / 100) 100
       < sell_price (RSIAMM_init\<lparr>bid_spread := 1, ask_spread := 1\<rparr>) (1 / 100) 100
   \<and> buy_price_v2 (RsiAmmV2Config_default\<lparr>cfg_bid_spread := 1, cfg_ask_spread := 1\<rparr>)
         (Some (- 1)) (1 / 100) 100
       < sell_price_v2 (RsiAmmV2Config_default\<lparr>cfg_bid_spread := 1, cfg_ask_spread := 1\<rparr>)
         (Some (- 1)) (1 / 100) 100"
proof -
  have h1: "(0::real) < 1" and h2: "(0::real) < 1 / 100" and h3: "(0::real) < 100" by simp_all
  have h4: "\<bar>(1::real) * (1 / 100) * rsi_spread_change_percentage RSIAMM_init\<bar> < 1"
    by (simp add: RSIAMM_init_def)
  have h5: "\<bar>(1::real) * (1 / 100) * cfg_rsi_spread_change_percentage RsiAmmV2Config_default\<bar> < 1"
    by (simp add: RsiAmmV2Config_default_def)
  show ?thesis
    using buy_below_sell_iff [OF h1 h1 h2, of RSIAMM_init 100 RsiAmmV2Config_default "Some (- 1)"]
      h1 h2 h3 h4 h5
    by blast
qed

text \<open>
  The claim as stated fails at mid price 0: with the class defaults (both spreads 1,
  neutral signal) and volatility 0.01 the buy price and the sell price are both 0.
\<close>

theorem buy_below_sell_counterexample:
  "0 < bid_spread RSIAMM_init \<and> 0 < ask_spread RSIAMM_init \<and> (0::real) < 1 / 100
   \<and> \<not> buy_price RSIAMM_init (1 / 100) 0 < sell_price RSIAMM_init (1 / 100) 0"
  by (simp add: RSIAMM_init_def buy_price_def sell_price_def adjusted_mid_price_def)

text \<open>
  C10. With the parameter values the two class bodies share (both spreads 1, skew
  percentage 0.5), the two variants compute the same buy price and the same sell price
  for every mid price, every cached signal value and every outcome of \<^verbatim>\<open>get_natr\<close>;
  the proposals they return carry the same sides and the same prices, in the same order.
\<close>

theorem variants_agree:
  "buy_price (self\<lparr>bid_spread := 1, ask_spread := 1, rsi_spread_change_percentage := 1 / 2,
                  rsi_signal := s\<rparr>) natr mid_price
     = buy_price_v2 (config\<lparr>cfg_bid_spread := 1, cfg_ask_spread := 1,
                            cfg_rsi_spread_change_percentage := 1 / 2\<rparr>) (Some s) natr mid_price
   \<and> sell_price (self\<lparr>bid_spread := 1, ask_spread := 1, rsi_spread_change_percentage := 1 / 2,
                  rsi_signal := s\<rparr>) natr mid_price
     = sell_price_v2 (config\<lparr>cfg_bid_spread := 1, cfg_ask_spread := 1,
                            cfg_rsi_spread_change_percentage := 1 / 2\<rparr>) (Some s) natr mid_price
   \<and> buy_price (RSIAMM_init\<lparr>rsi_signal := s\<rparr>) natr mid_price
     = buy_price_v2 RsiAmmV2Config_default (Some s) natr mid_price
   \<and> sell_price (RSIAMM_init\<lparr>rsi_signal := s\<rparr>) natr mid_price
     = sell_price_v2 RsiAmmV2Config_default (Some s) natr mid_price
   \<and> map_sum id (map (\<lambda>order. (order_side order, price order)))
       (create_proposal (RSIAMM_init\<lparr>rsi_signal := s\<rparr>) natr_result mid_price)
     = map_sum id (map (\<lambda>order. (order_side order, price order)))
       (create_proposal_v2 RsiAmmV2Config_default (Some s) natr_result mid_price)"
proof -
  have a: "adjusted_mid_price (RSIAMM_init\<lparr>rsi_signal := s\<rparr>) x mid_price
             = adjusted_mid_price_v2 RsiAmmV2Config_default (Some s) x mid_price" for x
    by (simp add: adjusted_mid_price_def adjusted_mid_price_v2_def RSIAMM_init_def
        RsiAmmV2Config_default_def)
  have b: "buy_price (RSIAMM_init\<lparr>rsi_signal := s\<rparr>) x mid_price
             = buy_price_v2 RsiAmmV2Config_default (Some s) x mid_price" for x
    unfolding buy_price_def buy_price_v2_def a
    by (simp add: RSIAMM_init_def RsiAmmV2Config_default_def)
  have c: "sell_price (RSIAMM_init\<lparr>rsi_signal := s\<rparr>) x mid_price
             = sell_price_v2 RsiAmmV2Config_default (Some s) x mid_price" for x
    unfolding sell_price_def sell_price_v2_def a
    by (simp add: RSIAMM_init_def RsiAmmV2Config_default_def)
  have d: "map_sum id (map (\<lambda>order. (order_side order, price order)))
             (create_proposal (RSIAMM_init\<lparr>rsi_signal := s\<rparr>) natr_result mid_price)
           = map_sum id (map (\<lambda>order. (order_side order, price order)))
             (create_proposal_v2 RsiAmmV2Config_default (Some s) natr_result mid_price)"
    by (cases natr_result) (simp_all add: create_proposal_def create_proposal_v2_def b c)
  show ?thesis
    using b c d
    by (simp add: buy_price_def buy_price_v2_def sell_price_def sell_price_v2_def
        adjusted_mid_price_def adjusted_mid_price_v2_def)
qed

text \<open>
  C7. In both variants \<^verbatim>\<open>create_proposal\<close>, once \<^verbatim>\<open>get_natr\<close> has returned, returns exactly
  two order candidates: a maker limit buy order at the computed buy price followed by a
  maker limit sell order at the computed sell price, both for the configured pair and
  both with the configured order amount.
\<close>

theorem create_proposal_orders:
  "create_proposal self (Inr natr) mid_price =
     Inr [\<lparr>trading_pair = self_trading_pair self, is_maker = True, order_type = LIMIT,
           order_side = BUY, amount = order_amount self,
           price = buy_price self natr mid_price\<rparr>,
          \<lparr>trading_pair = self_trading_pair self, is_maker = True, order_type = LIMIT,
           order_side = SELL, amount = order_amount self,
           price = sell_price self natr mid_price\<rparr>]
   \<and> create_proposal_v2 config signal (Inr natr) mid_price =
     Inr [\<lparr>trading_pair = cfg_trading_pair config, is_maker = True, order_type = LIMIT,
           order_side = BUY, amount = cfg_order_amount_quote config,
           price = buy_price_v2 config signal natr mid_price\<rparr>,
          \<lparr>trading_pair = cfg_trading_pair config, is_maker = True, order_type = LIMIT,
           order_side = SELL, amount = cfg_order_amount_quote config,
           price = sell_price_v2 config signal natr mid_price\<rparr>]"
  by (simp add: create_proposal_def create_proposal_v2_def)


section \<open>The signal rule\<close>

lemma length_falling_window: "length (falling_window n) = n"
  by (induction n) simp_all

lemma length_rising_window: "length (rising_window n) = n"
  by (simp add: rising_window_def length_falling_window)

lemma window_nonempty:
  "0 < n \<Longrightarrow> falling_window n \<noteq> []" "0 < n \<Longrightarrow> rising_window n \<noteq> []"
  using length_falling_window [of n] length_rising_window [of n] by auto

lemma aligned_column_last:
  "candles \<noteq> [] \<Longrightarrow>
     map (cell rsi) [0..<length candles] \<noteq> []
     \<and> last (map (cell rsi) [0..<length candles]) = cell rsi (length candles - 1)"
  by (simp add: last_map)

lemma get_rsi_signal_nonempty:
  "column \<noteq> [] \<Longrightarrow>
     get_rsi_signal column =
       Inr (if py_lt (last column) 30 then 1 else if py_gt (last column) 70 then - 1 else 0)"
  by (cases "last column") (simp_all add: get_rsi_signal_def)

lemma get_processed_df_appended:
  "rsi_indicator 7 candles = Some rsi \<Longrightarrow> candles \<noteq> [] \<Longrightarrow>
     get_processed_df rsi_indicator candles \<noteq> []
     \<and> last (get_processed_df rsi_indicator candles) = cell rsi (length candles - 1)"
  using aligned_column_last [of candles rsi] by (simp add: get_processed_df_def)

lemma get_processed_df_empty: "get_processed_df rsi_indicator [] = []"
  by (simp add: get_processed_df_def split: option.splits)

lemma get_signal_appended:
  "rsi_indicator (cfg_rsi_period config) (candles_feed c p) = Some rsi \<Longrightarrow>
   candles_feed c p \<noteq> [] \<Longrightarrow>
     get_signal config rsi_indicator candles_feed c p =
       Inr (Some (if py_gt (cell rsi (length (candles_feed c p) - 1)) (cfg_rsi_high config) then - 1
                  else if py_lt (cell rsi (length (candles_feed c p) - 1)) (cfg_rsi_low config) then 1
                  else 0))"
  using aligned_column_last [of "candles_feed c p" rsi]
  by (simp add: get_signal_def signal_column_def last_map Let_def)

lemma get_signal_no_column:
  "rsi_indicator (cfg_rsi_period config) (candles_feed c p) = None \<Longrightarrow>
     get_signal config rsi_indicator candles_feed c p = Inl KeyError"
  by (simp add: get_signal_def)

lemma thresholds_ordered:
  "lo \<le> hi \<Longrightarrow> \<not> (py_lt r lo \<and> py_gt r hi)"
  by (cases r) auto

lemma monotone_rsi_last:
  "0 \<le> len \<Longrightarrow> nat len < n \<Longrightarrow> length candles = n \<Longrightarrow>
     monotone_rsi v len candles = Some (replicate (nat len) NaN @ replicate (n - nat len) (Num v))
     \<and> cell (replicate (nat len) NaN @ replicate (n - nat len) (Num v)) (n - 1) = Num v"
  by (auto simp: monotone_rsi_def cell_def nth_append)

text \<open>
  C3, as amended. For every non-empty candle window on which the indicator library
  produces the oscillator column, the signal computation returns SELL (-1) when the
  latest oscillator value is strictly above the high threshold, BUY (+1) when it is
  strictly below the low threshold and not strictly above the high one, and NEUTRAL (0)
  otherwise, which includes a latest value that is not a number. The first variant's
  thresholds are the literals 30 and 70, so there the rule is the claim's; in the second
  variant the thresholds are configured, and the rule is the claim's whenever
  \<^verbatim>\<open>rsi_low \<le> rsi_high\<close>.
\<close>

theorem signal_rule:
  "(candles \<noteq> [] \<and> rsi_indicator 7 candles = Some rsi \<longrightarrow>
      get_rsi_signal (get_processed_df rsi_indicator candles) =
        Inr (if py_lt (cell rsi (length candles - 1)) 30 then 1
             else if py_gt (cell rsi (length candles - 1)) 70 then - 1 else 0))
   \<and> (candles_feed c p \<noteq> []
       \<and> rsi_indicator (cfg_rsi_period config) (candles_feed c p) = Some rsi2 \<longrightarrow>
      get_signal config rsi_indicator candles_feed c p =
        Inr (Some (if py_gt (cell rsi2 (length (candles_feed c p) - 1)) (cfg_rsi_high config) then - 1
                   else if py_lt (cell rsi2 (length (candles_feed c p) - 1)) (cfg_rsi_low config) then 1
                   else 0)))
   \<and> (candles_feed c p \<noteq> []
       \<and> rsi_indicator (cfg_rsi_period config) (candles_feed c p) = Some rsi2
       \<and> cfg_rsi_low config \<le> cfg_rsi_high config \<longrightarrow>
      get_signal config rsi_indicator candles_feed c p =
        Inr (Some (if py_lt (cell rsi2 (length (candles_feed c p) - 1)) (cfg_rsi_low config) then 1
                   else if py_gt (cell rsi2 (length (candles_feed c p) - 1)) (cfg_rsi_high config) then - 1
                   else 0)))"
proof (intro conjI impI)
  assume a: "candles \<noteq> [] \<and> rsi_indicator 7 candles = Some rsi"
  with get_processed_df_appended [of rsi_indicator candles rsi]
  have "get_processed_df rsi_indicator candles \<noteq> []"
    and "last (get_processed_df rsi_indicator candles) = cell rsi (length candles - 1)"
    by simp_all
  then show "get_rsi_signal (get_processed_df rsi_indicator candles) =
        Inr (if py_lt (cell rsi (length candles - 1)) 30 then 1
             else if py_gt (cell rsi (length candles - 1)) 70 then - 1 else 0)"
    using get_rsi_signal_nonempty [of "get_processed_df rsi_indicator candles"] by simp
next
  assume "candles_feed c p \<noteq> []
       \<and> rsi_indicator (cfg_rsi_period config) (candles_feed c p) = Some rsi2"
  then show "get_signal config rsi_indicator candles_feed c p =
        Inr (Some (if py_gt (cell rsi2 (length (candles_feed c p) - 1)) (cfg_rsi_high config) then - 1
                   else if py_lt (cell rsi2 (length (candles_feed c p) - 1)) (cfg_rsi_low config) then 1
                   else 0))"
    using get_signal_appended [of rsi_indicator config candles_feed c p rsi2] by simp
next
  assume "candles_feed c p \<noteq> []
       \<and> rsi_indicator (cfg_rsi_period config) (candles_feed c p) = Some rsi2
       \<and> cfg_rsi_low config \<le> cfg_rsi_high config"
  then show "get_signal config rsi_indicator candles_feed c p =
        Inr (Some (if py_lt (cell rsi2 (length (candles_feed c p) - 1)) (cfg_rsi_low config) then 1
                   else if py_gt (cell rsi2 (length (candles_feed c p) - 1)) (cfg_rsi_high config) then - 1
                   else 0))"
    using get_signal_appended [of rsi_indicator config candles_feed c p rsi2]
      thresholds_ordered [of "cfg_rsi_low config" "cfg_rsi_high config"
        "cell rsi2 (length (candles_feed c p) - 1)"]
    by auto
qed

text \<open>
  The theorem on falling windows of 8 candles (first variant, length 7) and 15 candles
  (second variant, default period 14 and thresholds 30 and 70): the latest oscillator
  value is 0 and both variants return BUY.
\<close>

theorem signal_rule_witness:
  "falling_window 8 \<noteq> []
   \<and> monotone_rsi 0 7 (falling_window 8) = Some (replicate 7 NaN @ replicate 1 (Num 0))
   \<and> constant_feed (falling_window 15) ''binance'' ''BTC-USDT'' \<noteq> []
   \<and> monotone_rsi 0 (cfg_rsi_period RsiAmmV2Config_default)
        (constant_feed (falling_window 15) ''binance'' ''BTC-USDT'')
       = Some (replicate 14 NaN @ replicate 1 (Num 0))
   \<and> cfg_rsi_low RsiAmmV2Config_default \<le> cfg_rsi_high RsiAmmV2Config_default
   \<and> get_rsi_signal (get_processed_df (monotone_rsi 0) (falling_window 8)) = Inr 1
   \<and> get_signal RsiAmmV2Config_default (monotone_rsi 0) (constant_feed (falling_window 15))
        ''binance'' ''BTC-USDT'' = Inr (Some 1)"
proof -
  have a: "falling_window 8 \<noteq> []" by (simp add: window_nonempty)
  have b: "monotone_rsi 0 7 (falling_window 8) = Some (replicate 7 NaN @ replicate 1 (Num 0))"
          "cell (replicate 7 NaN @ replicate 1 (Num 0)) (length (falling_window 8) - 1) = Num 0"
    using monotone_rsi_last [of 7 8 "falling_window 8" 0]
    by (simp_all add: length_falling_window)
  have c: "constant_feed (falling_window 15) ''binance'' ''BTC-USDT'' \<noteq> []"
    by (simp add: constant_feed_def window_nonempty)
  have d: "monotone_rsi 0 (cfg_rsi_period RsiAmmV2Config_default)
             (constant_feed (falling_window 15) ''binance'' ''BTC-USDT'')
           = Some (replicate 14 NaN @ replicate 1 (Num 0))"
          "cell (replicate 14 NaN @ replicate 1 (Num 0))
             (length (constant_feed (falling_window 15) ''binance'' ''BTC-USDT'') - 1) = Num 0"
    using monotone_rsi_last [of 14 15 "falling_window 15" 0]
    by (simp_all add: length_falling_window constant_feed_def RsiAmmV2Config_default_def)
  have e: "cfg_rsi_low RsiAmmV2Config_default \<le> cfg_rsi_high RsiAmmV2Config_default"
          "cfg_rsi_low RsiAmmV2Config_default = 30" "cfg_rsi_high RsiAmmV2Config_default = 70"
    by (simp_all add: RsiAmmV2Config_default_def)
  show ?thesis
    using signal_rule [of "falling_window 8" "monotone_rsi 0"
        "replicate 7 NaN @ replicate 1 (Num 0)" "constant_feed (falling_window 15)"
        "''binance''" "''BTC-USDT''" RsiAmmV2Config_default
        "replicate 14 NaN @ replicate 1 (Num 0)"]
      a b c d e
    by simp
qed

text \<open>
  The claim as stated fails in the second variant when the configured thresholds cross:
  with \<^verbatim>\<open>rsi_low = 150\<close> and \<^verbatim>\<open>rsi_high = 20\<close> (the configuration class only requires
  each to be positive), on a rising window of 15 candles the latest oscillator value 100
  is strictly below the low threshold, and the result is SELL, not BUY. It also fails on
  a non-empty window shorter than the period: on 5 candles the library appends no
  column, and the method raises instead of returning a signal.
\<close>

theorem signal_rule_counterexample:
  "constant_feed (rising_window 15) ''binance'' ''BTC-USDT'' \<noteq> []
   \<and> py_lt (Num 100) 150
   \<and> get_signal (RsiAmmV2Config_default\<lparr>cfg_rsi_low := 150, cfg_rsi_high := 20\<rparr>)
        (monotone_rsi 100) (constant_feed (rising_window 15)) ''binance'' ''BTC-USDT''
       = Inr (Some (- 1))
   \<and> constant_feed (falling_window 5) ''binance'' ''BTC-USDT'' \<noteq> []
   \<and> get_signal RsiAmmV2Config_default (monotone_rsi 0) (constant_feed (falling_window 5))
        ''binance'' ''BTC-USDT'' = Inl KeyError"
proof -
  let ?cfg = "RsiAmmV2Config_default\<lparr>cfg_rsi_low := 150, cfg_rsi_high := 20\<rparr>"
  have a: "constant_feed (rising_window 15) ''binance'' ''BTC-USDT'' \<noteq> []"
          "constant_feed (falling_window 5) ''binance'' ''BTC-USDT'' \<noteq> []"
    by (simp_all add: constant_feed_def window_nonempty)
  have b: "monotone_rsi 100 (cfg_rsi_period ?cfg)
             (constant_feed (rising_window 15) ''binance'' ''BTC-USDT'')
           = Some (replicate 14 NaN @ replicate 1 (Num 100))"
          "cell (replicate 14 NaN @ replicate 1 (Num 100))
             (length (constant_feed (rising_window 15) ''binance'' ''BTC-USDT'') - 1) = Num 100"
    using monotone_rsi_last [of 14 15 "rising_window 15" 100]
    by (simp_all add: length_rising_window constant_feed_def RsiAmmV2Config_default_def)
  have c: "get_signal ?cfg (monotone_rsi 100) (constant_feed (rising_window 15))
             ''binance'' ''BTC-USDT'' = Inr (Some (- 1))"
    using get_signal_appended [of "monotone_rsi 100" ?cfg "constant_feed (rising_window 15)"
        "''binance''" "''BTC-USDT''" "replicate 14 NaN @ replicate 1 (Num 100)"] a(1) b
    by (simp add: RsiAmmV2Config_default_def)
  have d: "monotone_rsi 0 (cfg_rsi_period RsiAmmV2Config_default)
             (constant_feed (falling_window 5) ''binance'' ''BTC-USDT'') = None"
    by (simp add: monotone_rsi_def constant_feed_def length_falling_window
        RsiAmmV2Config_default_def)
  show ?thesis
    using a c get_signal_no_column [of "monotone_rsi 0" RsiAmmV2Config_default
        "constant_feed (falling_window 5)" "''binance''" "''BTC-USDT''"] d
    by simp
qed

text \<open>
  C4. On an empty candle window both variants raise. The first variant's
  \<^verbatim>\<open>get_rsi_signal\<close> raises \<^verbatim>\<open>IndexError\<close> at \<^verbatim>\<open>iat[-1, -1]\<close>, whatever the library
  appended, and a tick that refreshes the signal on an empty window ends with that
  exception before any order is cancelled or placed. The second variant's
  \<^verbatim>\<open>get_signal\<close> raises \<^verbatim>\<open>KeyError\<close> when the library has appended no oscillator
  column to the empty frame: its test for an empty frame comes after the column lookup.
\<close>

theorem empty_window_raises:
  "get_rsi_signal (get_processed_df rsi_indicator []) = Inl IndexError
   \<and> on_tick (h\<lparr>ready := True, current_timestamp := create_timestamp self, candles_df := []\<rparr>) self
       = (self, [], Some IndexError)
   \<and> (rsi_indicator (cfg_rsi_period config) [] = None \<longrightarrow>
        get_signal config rsi_indicator (constant_feed []) c p = Inl KeyError)"
  by (simp add: get_processed_df_empty get_rsi_signal_def on_tick_def on_tick_refresh_def
      processed_df_def get_signal_def constant_feed_def)

text \<open>
  The theorem for the default configuration (period 14) and the library's behaviour on
  a frame shorter than the period: no column, and the second variant raises.
\<close>

theorem empty_window_raises_witness:
  "monotone_rsi 0 (cfg_rsi_period RsiAmmV2Config_default) [] = None
   \<and> get_signal RsiAmmV2Config_default (monotone_rsi 0) (constant_feed []) ''binance'' ''BTC-USDT''
       = Inl KeyError"
proof -
  have a: "monotone_rsi 0 (cfg_rsi_period RsiAmmV2Config_default) [] = None"
    by (simp add: monotone_rsi_def RsiAmmV2Config_default_def)
  show ?thesis
    using empty_window_raises [where rsi_indicator = "monotone_rsi 0" and h = host_example
        and self = RSIAMM_init and config = RsiAmmV2Config_default
        and c = "''binance''" and p = "''BTC-USDT''"] a
    by simp
qed

section \<open>The tick: re-quote decision and signal refresh\<close>

lemma on_tick_quote_calls:
  "fst (snd (on_tick_quote h self new_mid_price)) \<noteq> [] \<longleftrightarrow>
     (last_mid_price self = None
      \<or> (\<exists>l. last_mid_price self = Some l \<and> buffer_size self < \<bar>new_mid_price - l\<bar>))"
  by (cases "last_mid_price self")
     (auto simp: on_tick_quote_def Let_def split: sum.splits)

lemma create_actions_quote_result:
  "snd (create_actions_quote h config self new_mid_price) \<noteq> Inr [] \<longleftrightarrow>
     (v2_last_mid_price self = None
      \<or> (\<exists>l. v2_last_mid_price self = Some l \<and> cfg_buffer_size config < \<bar>new_mid_price - l\<bar>))"
  by (cases "v2_last_mid_price self")
     (auto simp: create_actions_quote_def Let_def split: sum.splits list.splits)

lemma on_tick_quote_skip:
  "last_mid_price self = Some l \<Longrightarrow> \<bar>new_mid_price - l\<bar> \<le> buffer_size self \<Longrightarrow>
     on_tick_quote h self new_mid_price = (self, [], None)"
  by (simp add: on_tick_quote_def)

lemma create_actions_quote_skip:
  "v2_last_mid_price self = Some l \<Longrightarrow> \<bar>new_mid_price - l\<bar> \<le> cfg_buffer_size config \<Longrightarrow>
     create_actions_quote h config self new_mid_price = (self, Inr [])"
  by (simp add: create_actions_quote_def)

lemma on_tick_quote_first:
  "last_mid_price self = None \<Longrightarrow> get_natr_outcome h = Inr natr \<Longrightarrow>
     on_tick_quote h self new_mid_price =
       (self\<lparr>last_mid_price := Some new_mid_price\<rparr>,
        Cancel_all_orders
          # place_orders self (adjust_candidates h
              [\<lparr>trading_pair = self_trading_pair self, is_maker = True, order_type = LIMIT,
                order_side = BUY, amount = order_amount self,
                price = buy_price self natr new_mid_price\<rparr>,
               \<lparr>trading_pair = self_trading_pair self, is_maker = True, order_type = LIMIT,
                order_side = SELL, amount = order_amount self,
                price = sell_price self natr new_mid_price\<rparr>]), None)"
  by (simp add: on_tick_quote_def create_proposal_def)

lemma create_actions_quote_first:
  "v2_last_mid_price self = None \<Longrightarrow> get_natr_outcome h = Inr natr \<Longrightarrow>
   adjust_candidates h = id \<Longrightarrow>
     create_actions_quote h config self new_mid_price =
       (self\<lparr>v2_last_mid_price := Some new_mid_price\<rparr>,
        Inr [CreateExecutorAction
               \<lparr>pe_timestamp = current_timestamp h, pe_trading_pair = cfg_trading_pair config,
                pe_connector_name = cfg_connector config, pe_side = BUY,
                pe_amount = cfg_order_amount_quote config\<rparr>,
             CreateExecutorAction
               \<lparr>pe_timestamp = current_timestamp h, pe_trading_pair = cfg_trading_pair config,
                pe_connector_name = cfg_connector config, pe_side = SELL,
                pe_amount = cfg_order_amount_quote config\<rparr>])"
  by (simp add: create_actions_quote_def create_proposal_v2_def)

text \<open>
  C5. In both variants the re-quote block of a tick runs (in the first variant it starts
  by cancelling all orders; in the second it returns executor actions or raises, never
  the empty list) exactly when the remembered last mid price is unset or the absolute
  difference between the new mid price and the last one is strictly greater than the
  configured buffer. So it runs when there is no last mid price, and when the new mid
  price is within the buffer of the last one the block does nothing and leaves the
  object as it was.
\<close>

theorem requote_decision:
  "(fst (snd (on_tick_quote h self new_mid_price)) \<noteq> [] \<longleftrightarrow>
      (last_mid_price self = None
       \<or> (\<exists>l. last_mid_price self = Some l \<and> buffer_size self < \<bar>new_mid_price - l\<bar>)))
   \<and> (snd (create_actions_quote h config self2 new_mid_price) \<noteq> Inr [] \<longleftrightarrow>
      (v2_last_mid_price self2 = None
       \<or> (\<exists>l. v2_last_mid_price self2 = Some l \<and> cfg_buffer_size config < \<bar>new_mid_price - l\<bar>)))
   \<and> (last_mid_price self = None \<longrightarrow> fst (snd (on_tick_quote h self new_mid_price)) \<noteq> [])
   \<and> (v2_last_mid_price self2 = None \<longrightarrow>
        snd (create_actions_quote h config self2 new_mid_price) \<noteq> Inr [])
   \<and> (\<forall>l. last_mid_price self = Some l \<and> \<bar>new_mid_price - l\<bar> \<le> buffer_size self \<longrightarrow>
        on_tick_quote h self new_mid_price = (self, [], None))
   \<and> (\<forall>l. v2_last_mid_price self2 = Some l \<and> \<bar>new_mid_price - l\<bar> \<le> cfg_buffer_size config \<longrightarrow>
        create_actions_quote h config self2 new_mid_price = (self2, Inr []))"
  using on_tick_quote_calls [of h self new_mid_price]
    create_actions_quote_result [of h config self2 new_mid_price]
    on_tick_quote_skip [of self _ new_mid_price h]
    create_actions_quote_skip [of self2 _ new_mid_price config h]
  by blast

text \<open>
  The theorem on a fresh object of each variant (no last mid price: the block runs) and
  on objects that remember mid price 100 when the new mid price is 150 and the buffer
  100 (the block does nothing).
\<close>

theorem requote_decision_witness:
  "last_mid_price RSIAMM_init = None
   \<and> fst (snd (on_tick_quote host_example RSIAMM_init 100)) \<noteq> []
   \<and> v2_last_mid_price RsiAmmV2_init = None
   \<and> snd (create_actions_quote host_example RsiAmmV2Config_default RsiAmmV2_init 100) \<noteq> Inr []
   \<and> last_mid_price (RSIAMM_init\<lparr>last_mid_price := Some 100\<rparr>) = Some 100
   \<and> \<bar>150 - 100\<bar> \<le> buffer_size (RSIAMM_init\<lparr>last_mid_price := Some 100\<rparr>)
   \<and> on_tick_quote host_example (RSIAMM_init\<lparr>last_mid_price := Some 100\<rparr>) 150
       = (RSIAMM_init\<lparr>last_mid_price := Some 100\<rparr>, [], None)
   \<and> v2_last_mid_price (RsiAmmV2_init\<lparr>v2_last_mid_price := Some 100\<rparr>) = Some 100
   \<and> \<bar>150 - 100\<bar> \<le> cfg_buffer_size RsiAmmV2Config_default
   \<and> create_actions_quote host_example RsiAmmV2Config_default
         (RsiAmmV2_init\<lparr>v2_last_mid_price := Some 100\<rparr>) 150
       = (RsiAmmV2_init\<lparr>v2_last_mid_price := Some 100\<rparr>, Inr [])"
proof -
  have a: "last_mid_price RSIAMM_init = None" by (simp add: RSIAMM_init_def)
  have b: "v2_last_mid_price RsiAmmV2_init = None" by (simp add: RsiAmmV2_init_def)
  have c: "last_mid_price (RSIAMM_init\<lparr>last_mid_price := Some 100\<rparr>) = Some 100" by simp
  have d: "\<bar>150 - 100\<bar> \<le> buffer_size (RSIAMM_init\<lparr>last_mid_price := Some 100\<rparr>)"
    by (simp add: RSIAMM_init_def)
  have e: "v2_last_mid_price (RsiAmmV2_init\<lparr>v2_last_mid_price := Some 100\<rparr>) = Some 100" by simp
  have f: "\<bar>150 - 100\<bar> \<le> cfg_buffer_size RsiAmmV2Config_default"
    by (simp add: RsiAmmV2Config_default_def)
  show ?thesis
    using requote_decision [of host_example RSIAMM_init 100 RsiAmmV2Config_default RsiAmmV2_init]
      requote_decision [of host_example "RSIAMM_init\<lparr>last_mid_price := Some 100\<rparr>" 150
        RsiAmmV2Config_default "RsiAmmV2_init\<lparr>v2_last_mid_price := Some 100\<rparr>"]
      a b c d e f
    by blast
qed

lemma on_tick_refresh_early:
  "current_timestamp h < create_timestamp self \<Longrightarrow> on_tick_refresh h self = (self, None)"
  by (simp add: on_tick_refresh_def)

lemma on_tick_refresh_due:
  "create_timestamp self \<le> current_timestamp h \<Longrightarrow> processed_df h \<noteq> [] \<Longrightarrow>
     \<exists>s. get_rsi_signal (processed_df h) = Inr s
        \<and> on_tick_refresh h self =
            (self\<lparr>rsi_signal := s,
                  create_timestamp := rsi_refresh_time self + current_timestamp h\<rparr>, None)"
  by (simp add: on_tick_refresh_def get_rsi_signal_def Let_def)

lemma on_tick_quote_keeps_signal:
  "rsi_signal (fst (on_tick_quote h self m)) = rsi_signal self
   \<and> create_timestamp (fst (on_tick_quote h self m)) = create_timestamp self"
  by (simp add: on_tick_quote_def Let_def split: sum.splits)

lemma on_tick_early:
  "current_timestamp h < create_timestamp self \<Longrightarrow>
     rsi_signal (fst (on_tick h self)) = rsi_signal self
     \<and> create_timestamp (fst (on_tick h self)) = create_timestamp self"
  by (simp add: on_tick_def on_tick_refresh_early on_tick_quote_keeps_signal)

lemma create_actions_refresh_early:
  "v2_create_timestamp self = Some ct \<Longrightarrow> current_timestamp h < ct \<Longrightarrow>
     create_actions_refresh h config self = (self, None)"
  by (simp add: create_actions_refresh_def)

lemma create_actions_refresh_state:
  "fst (create_actions_refresh h config self) = self"
  by (simp add: create_actions_refresh_def py_call2_def split: option.splits)

lemma create_actions_quote_keeps_signal:
  "v2_rsi_signal (fst (create_actions_quote h config self m)) = v2_rsi_signal self
   \<and> v2_create_timestamp (fst (create_actions_quote h config self m)) = v2_create_timestamp self"
  by (simp add: create_actions_quote_def Let_def split: sum.splits list.splits)

lemma create_actions_proposal_keeps_signal:
  "v2_rsi_signal (fst (create_actions_proposal h config self)) = v2_rsi_signal self
   \<and> v2_create_timestamp (fst (create_actions_proposal h config self)) = v2_create_timestamp self"
proof (cases "create_actions_refresh h config self")
  case (Pair self1 r)
  with create_actions_refresh_state [of h config self] have "self1 = self" by simp
  with Pair show ?thesis
    by (cases r) (simp_all add: create_actions_proposal_def create_actions_quote_keeps_signal)
qed

text \<open>
  C6. In both variants, on a tick whose clock is strictly before the stored refresh
  deadline the refresh block changes nothing, and after the whole tick the cached signal
  and the deadline are what they were. In the first variant the cached signal can differ
  after a tick only if the deadline had passed, and on a tick where the deadline has
  passed and the candle window is not empty the signal is recomputed by
  \<^verbatim>\<open>get_rsi_signal\<close> and the deadline becomes the clock plus the refresh interval.
\<close>

theorem signal_refresh:
  "(current_timestamp h < create_timestamp self \<longrightarrow>
      on_tick_refresh h self = (self, None)
      \<and> rsi_signal (fst (on_tick h self)) = rsi_signal self
      \<and> create_timestamp (fst (on_tick h self)) = create_timestamp self)
   \<and> (rsi_signal (fst (on_tick h self)) \<noteq> rsi_signal self \<longrightarrow>
        create_timestamp self \<le> current_timestamp h)
   \<and> (create_timestamp self \<le> current_timestamp h \<and> processed_df h \<noteq> [] \<longrightarrow>
        (\<exists>s. get_rsi_signal (processed_df h) = Inr s
            \<and> on_tick_refresh h self =
                (self\<lparr>rsi_signal := s,
                      create_timestamp := rsi_refresh_time self + current_timestamp h\<rparr>, None)))
   \<and> (\<forall>ct. v2_create_timestamp self2 = Some ct \<and> current_timestamp h < ct \<longrightarrow>
        create_actions_refresh h config self2 = (self2, None)
        \<and> v2_rsi_signal (fst (create_actions_proposal h config self2)) = v2_rsi_signal self2
        \<and> v2_create_timestamp (fst (create_actions_proposal h config self2)) = Some ct)"
  using on_tick_refresh_early [of h self] on_tick_early [of h self]
    on_tick_refresh_due [of self h] create_actions_refresh_early [of self2 _ h config]
    create_actions_proposal_keeps_signal [of h config self2]
  by (auto simp: not_less [symmetric])

text \<open>
  The theorem on the example host, whose clock reads 1000: objects whose deadline is 2000
  keep their signal and deadline; the fresh first-variant object (deadline 0, signal 0)
  recomputes the signal, which becomes 1, and its deadline becomes 1015.
\<close>

theorem signal_refresh_witness:
  "current_timestamp host_example < create_timestamp (RSIAMM_init\<lparr>create_timestamp := 2000\<rparr>)
   \<and> rsi_signal (fst (on_tick host_example (RSIAMM_init\<lparr>create_timestamp := 2000\<rparr>))) = 0
   \<and> create_timestamp (fst (on_tick host_example (RSIAMM_init\<lparr>create_timestamp := 2000\<rparr>))) = 2000
   \<and> rsi_signal (fst (on_tick host_example RSIAMM_init)) \<noteq> rsi_signal RSIAMM_init
   \<and> create_timestamp RSIAMM_init \<le> current_timestamp host_example
   \<and> processed_df host_example \<noteq> []
   \<and> on_tick_refresh host_example RSIAMM_init =
       (RSIAMM_init\<lparr>rsi_signal := 1, create_timestamp := 1015\<rparr>, None)
   \<and> v2_create_timestamp (RsiAmmV2_init\<lparr>v2_create_timestamp := Some 2000\<rparr>) = Some 2000
   \<and> current_timestamp host_example < 2000
   \<and> v2_rsi_signal (fst (create_actions_proposal host_example RsiAmmV2Config_default
        (RsiAmmV2_init\<lparr>v2_create_timestamp := Some 2000\<rparr>))) = Some 0
   \<and> v2_create_timestamp (fst (create_actions_proposal host_example RsiAmmV2Config_default
        (RsiAmmV2_init\<lparr>v2_create_timestamp := Some 2000\<rparr>))) = Some 2000"
proof -
  have a: "current_timestamp host_example < create_timestamp (RSIAMM_init\<lparr>create_timestamp := 2000\<rparr>)"
    by (simp add: host_example_def)
  have b: "create_timestamp RSIAMM_init \<le> current_timestamp host_example"
    by (simp add: host_example_def RSIAMM_init_def)
  have p: "get_processed_df (monotone_rsi 0) (falling_window 8) \<noteq> []
           \<and> last (get_processed_df (monotone_rsi 0) (falling_window 8)) = Num 0"
    using monotone_rsi_last [of 7 8 "falling_window 8" 0]
      get_processed_df_appended [of "monotone_rsi 0" "falling_window 8"
        "replicate 7 NaN @ replicate 1 (Num 0)"]
    by (simp add: length_falling_window window_nonempty)
  have c: "processed_df host_example \<noteq> []"
    using p by (simp add: host_example_def processed_df_def)
  have d: "get_rsi_signal (processed_df host_example) = Inr 1"
    using p get_rsi_signal_nonempty [of "processed_df host_example"]
    by (simp add: host_example_def processed_df_def)
  have e: "v2_create_timestamp (RsiAmmV2_init\<lparr>v2_create_timestamp := Some 2000\<rparr>) = Some 2000"
    by simp
  have f: "current_timestamp host_example < 2000" by (simp add: host_example_def)
  have g: "rsi_signal (fst (on_tick host_example RSIAMM_init)) \<noteq> rsi_signal RSIAMM_init"
    using b d
    by (simp add: on_tick_def on_tick_refresh_def on_tick_quote_def Let_def
        host_example_def RSIAMM_init_def create_proposal_def)
  have i: "rsi_signal (RSIAMM_init\<lparr>create_timestamp := 2000\<rparr>) = 0"
          "create_timestamp (RSIAMM_init\<lparr>create_timestamp := 2000\<rparr>) = 2000"
          "rsi_refresh_time RSIAMM_init + current_timestamp host_example = 1015"
          "v2_rsi_signal (RsiAmmV2_init\<lparr>v2_create_timestamp := Some 2000\<rparr>) = Some 0"
    by (simp_all add: RSIAMM_init_def RsiAmmV2_init_def host_example_def)
  show ?thesis
    using signal_refresh [of host_example "RSIAMM_init\<lparr>create_timestamp := 2000\<rparr>"
        "RsiAmmV2_init\<lparr>v2_create_timestamp := Some 2000\<rparr>" RsiAmmV2Config_default]
      signal_refresh [of host_example RSIAMM_init
        "RsiAmmV2_init\<lparr>v2_create_timestamp := Some 2000\<rparr>" RsiAmmV2Config_default]
      a b c d e f g i
    by auto
qed

lemma create_actions_refresh_raises:
  "v2_create_timestamp self = Some ct \<Longrightarrow> ct \<le> current_timestamp h \<Longrightarrow>
     create_actions_refresh h config self = (self, Some TypeError)"
  by (simp add: create_actions_refresh_def py_call2_def)

lemma create_actions_refresh_no_attribute:
  "v2_create_timestamp self = None \<Longrightarrow>
     create_actions_refresh h config self = (self, Some AttributeError)"
  by (simp add: create_actions_refresh_def)

text \<open>
  C9. In the second variant, on every tick on which the market data provider is ready
  and the refresh deadline has passed, the tick handler calls \<^verbatim>\<open>get_signal\<close> with no
  positional argument, the call raises \<^verbatim>\<open>TypeError\<close>, and the tick ends with that
  exception and the object unchanged: no signal value is produced.
\<close>

theorem refresh_branch_raises:
  "ready h \<Longrightarrow> v2_create_timestamp self = Some ct \<Longrightarrow> ct \<le> current_timestamp h \<Longrightarrow>
     create_actions_proposal h config self = (self, Inl TypeError)"
  by (simp add: create_actions_proposal_def create_actions_refresh_raises)

text \<open>The theorem on the example host (clock 1000) and a fresh object with deadline 0.\<close>

theorem refresh_branch_raises_witness:
  "ready host_example \<and> v2_create_timestamp RsiAmmV2_init = Some 0
   \<and> 0 \<le> current_timestamp host_example
   \<and> create_actions_proposal host_example RsiAmmV2Config_default RsiAmmV2_init
       = (RsiAmmV2_init, Inl TypeError)"
proof -
  have r: "ready host_example" by (simp add: host_example_def)
  have t: "v2_create_timestamp RsiAmmV2_init = Some 0" by (simp add: RsiAmmV2_init_def)
  have d: "0 \<le> current_timestamp host_example" by (simp add: host_example_def)
  show ?thesis using refresh_branch_raises [OF r t d] r t d by simp
qed


section \<open>The volatility window\<close>

lemma natr_period_not_declared: "map_of RsiAmmV2Config_class ''natr_period'' = None"
  by (simp add: RsiAmmV2Config_class_def)

lemma natr_period_declared: "map_of RSIAMM_class ''natr_period'' = Some (PInt 100)"
  by (simp add: RSIAMM_class_def)

lemma get_natr_strategy_class:
  "getattr RSIAMM_class ''natr_period'' = Inr (PInt 100)
   \<and> get_natr (RSIAMM_class @ base) ta_natr_last =
       (case ta_natr_last (PInt 100) of Inl e \<Rightarrow> Inl e | Inr natr \<Rightarrow> Inr (natr / 100))"
  by (simp add: get_natr_def getattr_def map_add_def natr_period_declared)

text \<open>
  C8. The variant with a configuration object is \<^verbatim>\<open>rsi-amm-joi-v2.py\<close>. Its volatility
  computation \<^verbatim>\<open>get_natr\<close> reads \<^verbatim>\<open>natr_period\<close> from the configuration object, and the
  class body of \<^verbatim>\<open>RsiAmmV2Config\<close> defines no attribute of that name: the lookup on the
  class body fails, and unless the base class of the configuration supplies the field
  \<^verbatim>\<open>get_natr\<close> raises \<^verbatim>\<open>AttributeError\<close> before the indicator is called, so the length
  of the volatility window is not a defined configuration field.
\<close>

theorem natr_period_lookup:
  "getattr RsiAmmV2Config_class ''natr_period'' = Inl AttributeError
   \<and> (map_of base ''natr_period'' = None \<longrightarrow>
        get_natr_v2 (RsiAmmV2Config_class @ base) ta_natr_last = Inl AttributeError)"
  by (simp add: get_natr_v2_def getattr_def map_add_def natr_period_not_declared)

text \<open>
  The theorem for a base class that defines nothing and an indicator whose last value is
  1: the volatility computation raises.
\<close>

theorem natr_period_lookup_witness:
  "map_of ([] :: (string \<times> pyval) list) ''natr_period'' = None
   \<and> get_natr_v2 (RsiAmmV2Config_class @ []) (constant_natr 1) = Inl AttributeError"
  using natr_period_lookup [of "[]" "constant_natr 1"] by simp

end
